theory Spec2Isabelle
  imports Main
begin

section \<open>Values that cross the C boundary\<close>

text \<open>
  A \<open>const char *\<close> is a C string or NULL; a \<open>wchar_t *\<close> returned by the locale decoder
  is a sequence of code points. Interpreter objects are opaque handles, except tuples,
  whose slots the bridge fills itself (a slot may hold NULL, since the bridge stores the
  result of a conversion without testing it).
\<close>

type_synonym cstring = "string option"
type_synonym wstring = "nat list"

datatype pyobj = PyObj nat | PyTuple "pyobj option list"

datatype PyStatus = Status_Ok | Status_Error | Status_Exit

fun PyStatus_Exception :: "PyStatus \<Rightarrow> bool" where
  "PyStatus_Exception Status_Ok = False"
| "PyStatus_Exception Status_Error = True"
| "PyStatus_Exception Status_Exit = True"

record PyConfig =
  isolated :: int
  use_environment :: int
  home :: "wstring option"
  module_search_paths :: "wstring list"

section \<open>The interpreter and the C library as an environment\<close>

text \<open>
  The bridge is written against the CPython embedding API and libc, neither of which is
  part of the repository. Every call whose result the source tests is a field of the
  record below; an operation of the bridge takes such a record and branches on what it
  answers, so a theorem about all records is a theorem about every behaviour of the
  interpreter. Different calls of the bridge may be given different records (an import
  that fails now may succeed later).
\<close>

record py_api =
  PyConfig_InitIsolatedConfig :: PyConfig
  Py_DecodeLocale :: "string \<Rightarrow> wstring option"
  PyConfig_SetString :: "PyConfig \<Rightarrow> wstring \<Rightarrow> PyStatus"
  PyWideStringList_Append :: "wstring list \<Rightarrow> wstring \<Rightarrow> PyStatus"
  Py_InitializeFromConfig :: "PyConfig \<Rightarrow> PyStatus"
  Py_IsInitialized :: "PyConfig \<Rightarrow> bool"
  PyEval_SaveThread :: "nat option"
  strdup_succeeds :: "string \<Rightarrow> bool"
  PyUnicode_FromString :: "string \<Rightarrow> pyobj option"
  PyImport_Import :: "pyobj \<Rightarrow> pyobj option"
  PyImport_ImportModule :: "string \<Rightarrow> pyobj option"
  PyObject_GetAttrString :: "pyobj \<Rightarrow> string \<Rightarrow> pyobj option"
  PyObject_CallObject :: "pyobj \<Rightarrow> pyobj \<Rightarrow> pyobj option"
  PyUnicode_AsUTF8 :: "pyobj \<Rightarrow> string option"

text \<open>\<open>strdup\<close> returns a fresh copy of its argument, or NULL when allocation fails.\<close>

definition strdup :: "py_api \<Rightarrow> string \<Rightarrow> cstring" where
  "strdup api str = (if strdup_succeeds api str then Some str else None)"

text \<open>
  The error indicator. A library call that returns NULL leaves an exception pending in
  the calling thread, \<open>PyErr_Print\<close> clears it, and nothing else the bridge calls does.
  A call through \<open>PyObject_CallObject\<close> made while an exception is pending returns NULL:
  the interpreter refuses a result that comes back with an exception set, and raises
  \<open>SystemError\<close> in its place. So the answer of the environment counts only when no
  exception is pending, and a non-NULL result leaves none pending. (A callee that clears
  the indicator itself before it returns is outside the model.) Every operation of the
  bridge is taken to start with the indicator clear.
\<close>

definition call_object :: "py_api \<Rightarrow> bool \<Rightarrow> pyobj \<Rightarrow> pyobj \<Rightarrow> pyobj option" where
  "call_object api pending callable args =
     (if pending then None else PyObject_CallObject api callable args)"

text \<open>
  Tuple construction. The source never tests the result of \<open>PyTuple_New\<close>, and the
  model takes the allocation to succeed; \<open>PyTuple_SetItem\<close> on anything but a tuple with
  that slot leaves its argument as it is.
\<close>

definition PyTuple_New :: "nat \<Rightarrow> pyobj" where
  "PyTuple_New n = PyTuple (replicate n None)"

fun PyTuple_SetItem :: "pyobj \<Rightarrow> nat \<Rightarrow> pyobj option \<Rightarrow> pyobj" where
  "PyTuple_SetItem (PyTuple items) i x = (if i < length items then PyTuple (items[i := x]) else PyTuple items)"
| "PyTuple_SetItem (PyObj h) i x = PyObj h"

section \<open>Observable events\<close>

text \<open>
  Each call into the interpreter or libc that the source makes is recorded, in program
  order, so that "performs no interaction" and "released before return" are statements
  about a list.
\<close>

datatype event =
    Ev_GILState_Ensure
  | Ev_GILState_Release
  | Ev_Unicode_FromString string
  | Ev_Import pyobj
  | Ev_ImportModule string
  | Ev_GetAttrString pyobj string
  | Ev_Tuple_New nat
  | Ev_Tuple_SetItem nat "pyobj option"
  | Ev_CallObject pyobj pyobj
  | Ev_AsUTF8 pyobj
  | Ev_DECREF pyobj
  | Ev_Err_Print
  | Ev_strdup string
  | Ev_free string
  | Ev_Config_InitIsolated
  | Ev_Config_Clear
  | Ev_DecodeLocale string
  | Ev_Config_SetString wstring
  | Ev_WideStringList_Append wstring
  | Ev_RawFree wstring
  | Ev_InitializeFromConfig PyConfig
  | Ev_IsInitialized
  | Ev_SaveThread
  | Ev_RestoreThread nat
  | Ev_Finalize

fun is_gil :: "event \<Rightarrow> bool" where
  "is_gil Ev_GILState_Ensure = True"
| "is_gil Ev_GILState_Release = True"
| "is_gil _ = False"

fun is_libc :: "event \<Rightarrow> bool" where
  "is_libc (Ev_strdup _) = True"
| "is_libc (Ev_free _) = True"
| "is_libc _ = False"

section \<open>The bridge's static variables\<close>

record bridge_state =
  s_pythonInitialized :: bool
  s_novinBridgeInstance :: "pyobj option"
  s_pythonHomeW :: "wstring option"
  s_pythonPathW :: "wstring option"
  s_mainThreadState :: "nat option"

definition initial_state :: bridge_state where
  "initial_state = \<lparr> s_pythonInitialized = False, s_novinBridgeInstance = None,
     s_pythonHomeW = None, s_pythonPathW = None, s_mainThreadState = None \<rparr>"

section \<open>ensure_bridge_initialized\<close>

text \<open>
  Lines 39 to 57: the argument tuple built from \<open>brandConfigJson\<close>. The tuple is NULL
  (\<open>None\<close>) when the blob is absent or empty, and also when the \<open>json\<close> module cannot
  be imported, has no \<open>loads\<close>, or \<open>loads\<close> returns NULL. None of these failures is
  followed by \<open>PyErr_Print\<close>, so each of them leaves its exception pending: the boolean
  beside the tuple is the error indicator at line 59.
\<close>

definition brand_config_args ::
    "py_api \<Rightarrow> cstring \<Rightarrow> (pyobj option \<times> bool) \<times> event list" where
  "brand_config_args api brandConfigJson =
    (case brandConfigJson of
       None \<Rightarrow> ((None, False), [])
     | Some cfg \<Rightarrow>
        if length cfg > 0 then
          (case PyImport_ImportModule api ''json'' of
             None \<Rightarrow> ((None, True), [Ev_ImportModule ''json''])
           | Some jsonModule \<Rightarrow>
              (case PyObject_GetAttrString api jsonModule ''loads'' of
                 None \<Rightarrow> ((None, True), [Ev_ImportModule ''json'',
                                 Ev_GetAttrString jsonModule ''loads'', Ev_DECREF jsonModule])
               | Some loadsFunc \<Rightarrow>
                  (let u = PyUnicode_FromString api cfg;
                       jsonArgs = PyTuple_SetItem (PyTuple_New 1) 0 u;
                       configDict = call_object api (u = None) loadsFunc jsonArgs;
                       ev = [Ev_ImportModule ''json'',
                             Ev_GetAttrString jsonModule ''loads'', Ev_DECREF jsonModule,
                             Ev_Tuple_New 1, Ev_Unicode_FromString cfg, Ev_Tuple_SetItem 0 u,
                             Ev_CallObject loadsFunc jsonArgs,
                             Ev_DECREF loadsFunc, Ev_DECREF jsonArgs]
                   in (case configDict of
                         None \<Rightarrow> ((None, True), ev)
                       | Some d \<Rightarrow>
                           ((Some (PyTuple_SetItem (PyTuple_New 1) 0 (Some d)), False),
                            ev @ [Ev_Tuple_New 1, Ev_Tuple_SetItem 0 (Some d)])))))
        else ((None, False), []))"

text \<open>
  The whole function. Each of its first three failures prints, and so clears, its
  exception before returning; the constructor call at line 63 is made with the error
  indicator as lines 39 to 57 left it.
\<close>

definition ensure_bridge_initialized ::
    "py_api \<Rightarrow> cstring \<Rightarrow> bridge_state \<Rightarrow> bridge_state \<times> event list" where
  "ensure_bridge_initialized api brandConfigJson s =
    (if s_novinBridgeInstance s \<noteq> None then (s, [])
     else
      (case PyUnicode_FromString api ''novin_ai_bridge'' of
         None \<Rightarrow> (s, [Ev_Unicode_FromString ''novin_ai_bridge'', Ev_Err_Print])
       | Some moduleName \<Rightarrow>
          (case PyImport_Import api moduleName of
             None \<Rightarrow> (s, [Ev_Unicode_FromString ''novin_ai_bridge'',
                          Ev_Import moduleName, Ev_DECREF moduleName, Ev_Err_Print])
           | Some module \<Rightarrow>
              (case PyObject_GetAttrString api module ''NovinAIBridge'' of
                 None \<Rightarrow> (s, [Ev_Unicode_FromString ''novin_ai_bridge'',
                              Ev_Import moduleName, Ev_DECREF moduleName,
                              Ev_GetAttrString module ''NovinAIBridge'', Ev_DECREF module,
                              Ev_Err_Print])
               | Some cls \<Rightarrow>
                  (let ((parsed, pending), evj) = brand_config_args api brandConfigJson;
                       (args, eva) = (case parsed of
                                        None \<Rightarrow> (PyTuple_New 0, [Ev_Tuple_New 0])
                                      | Some a \<Rightarrow> (a, []));
                       instance = call_object api pending cls args;
                       ev = [Ev_Unicode_FromString ''novin_ai_bridge'',
                             Ev_Import moduleName, Ev_DECREF moduleName,
                             Ev_GetAttrString module ''NovinAIBridge'', Ev_DECREF module]
                            @ evj @ eva
                            @ [Ev_CallObject cls args, Ev_DECREF args, Ev_DECREF cls]
                   in (case instance of
                         None \<Rightarrow> (s, ev @ [Ev_Err_Print])
                       | Some i \<Rightarrow> (s\<lparr> s_novinBridgeInstance := Some i \<rparr>, ev)))))))"

section \<open>novin_python_process_request\<close>

text \<open>
  What a call hands back: the returned pointer, the assignment made to \<open>*errorOut\<close>
  (\<open>None\<close> when the slot was never written, \<open>Some p\<close> when \<open>p\<close> was stored, where \<open>p\<close>
  itself may be NULL), the static variables afterwards and the events of the call.
\<close>

record call_result =
  ret :: cstring
  err_written :: "cstring option"
  state :: bridge_state
  events :: "event list"

text \<open>
  The source ends each failing path the same way: \<open>if (errorOut) *errorOut = strdup(msg);
  return NULL;\<close>. The parameter \<open>errorOut\<close> of the model says whether the caller passed a
  slot.
\<close>

definition fail_with ::
    "py_api \<Rightarrow> bool \<Rightarrow> string \<Rightarrow> bridge_state \<Rightarrow> event list \<Rightarrow> call_result" where
  "fail_with api errorOut msg s ev =
     (if errorOut
      then \<lparr> ret = None, err_written = Some (strdup api msg), state = s,
             events = ev @ [Ev_strdup msg] \<rparr>
      else \<lparr> ret = None, err_written = None, state = s, events = ev \<rparr>)"

text \<open>
  \<open>requestJson\<close> is a C string: the header documents it as the payload, and the source
  converts it without a NULL test. \<open>clientId\<close> and \<open>brandConfigJson\<close> may be NULL.
\<close>

text \<open>
  Lines 167 to 211, the part of the function that runs once the instance exists: the
  method is resolved on \<open>inst\<close> and called. The events are those of this part alone.
  A conversion of an argument that fails leaves its exception pending at the call.
\<close>

definition call_process_request ::
    "py_api \<Rightarrow> string \<Rightarrow> cstring \<Rightarrow> bool \<Rightarrow> bridge_state \<Rightarrow> pyobj \<Rightarrow> call_result" where
  "call_process_request api requestJson clientId errorOut s inst =
    (case PyObject_GetAttrString api inst ''process_request'' of
       None \<Rightarrow>
         fail_with api errorOut ''NovinAIBridge missing process_request'' s
           [Ev_GetAttrString inst ''process_request'', Ev_Err_Print, Ev_GILState_Release]
     | Some processFunc \<Rightarrow>
        (let u0 = PyUnicode_FromString api requestJson;
             actualClientId = (case clientId of None \<Rightarrow> ''ios-client'' | Some c \<Rightarrow> c);
             u1 = PyUnicode_FromString api actualClientId;
             args = PyTuple_SetItem (PyTuple_SetItem (PyTuple_New 2) 0 u0) 1 u1;
             result = call_object api (u0 = None \<or> u1 = None) processFunc args;
             called = [Ev_GetAttrString inst ''process_request'',
                       Ev_Tuple_New 2,
                       Ev_Unicode_FromString requestJson, Ev_Tuple_SetItem 0 u0,
                       Ev_Unicode_FromString actualClientId, Ev_Tuple_SetItem 1 u1,
                       Ev_CallObject processFunc args,
                       Ev_DECREF args, Ev_DECREF processFunc]
         in (case result of
               None \<Rightarrow>
                 fail_with api errorOut ''Python processing failed'' s
                   (called @ [Ev_Err_Print, Ev_GILState_Release])
             | Some res \<Rightarrow>
                (case PyUnicode_AsUTF8 api res of
                   None \<Rightarrow>
                     fail_with api errorOut ''Failed to convert Python result to UTF-8'' s
                       (called @ [Ev_AsUTF8 res, Ev_DECREF res, Ev_GILState_Release])
                 | Some resultCString \<Rightarrow>
                    (let response = strdup api resultCString;
                         done = called @ [Ev_AsUTF8 res, Ev_strdup resultCString,
                                  Ev_DECREF res, Ev_GILState_Release]
                     in if response = None \<and> errorOut
                        then \<lparr> ret = response,
                               err_written =
                                 Some (strdup api ''Out of memory duplicating response''),
                               state = s,
                               events = done @
                                 [Ev_strdup ''Out of memory duplicating response''] \<rparr>
                        else \<lparr> ret = response, err_written = None, state = s,
                               events = done \<rparr>)))))"

text \<open>The whole function: lines 147 to 165, then the part above.\<close>

definition novin_python_process_request ::
    "py_api \<Rightarrow> string \<Rightarrow> cstring \<Rightarrow> cstring \<Rightarrow> bool \<Rightarrow> bridge_state \<Rightarrow> call_result" where
  "novin_python_process_request api requestJson clientId brandConfigJson errorOut s =
    (if \<not> s_pythonInitialized s then
       fail_with api errorOut ''Python runtime not initialized'' s []
     else
      (let (s1, ev1) = (if s_novinBridgeInstance s = None
                        then ensure_bridge_initialized api brandConfigJson s
                        else (s, []));
           pre = Ev_GILState_Ensure # ev1
       in (case s_novinBridgeInstance s1 of
             None \<Rightarrow>
               fail_with api errorOut ''Failed to initialize NovinAIBridge'' s1
                 (pre @ [Ev_GILState_Release])
           | Some inst \<Rightarrow>
              (let r = call_process_request api requestJson clientId errorOut s1 inst
               in r\<lparr> events := pre @ events r \<rparr>))))"

section \<open>novin_python_initialize\<close>

text \<open>
  \<open>strtok_r\<close> on the text that the scan pointer has reached: leading delimiters are
  skipped; if nothing is left there is no token; otherwise the token runs up to the next
  delimiter, which is overwritten, and the scan pointer moves past it.
\<close>

definition strtok_r :: "string \<Rightarrow> string \<Rightarrow> string option \<times> string" where
  "strtok_r str delim =
     (let s = dropWhile (\<lambda>c. c \<in> set delim) str
      in if s = [] then (None, [])
         else (Some (takeWhile (\<lambda>c. c \<notin> set delim) s),
               drop 1 (dropWhile (\<lambda>c. c \<notin> set delim) s)))"

text \<open>
  Lines 113 to 125, the loop over the tokens of the duplicated path: the result is the
  module search path list, or \<open>None\<close> when an append reported an exception status (the
  source then returns false). A token that does not decode takes the \<open>continue\<close>. A
  successful append puts the entry at the end of the list.
\<close>

function append_search_paths ::
    "py_api \<Rightarrow> string \<Rightarrow> wstring list \<Rightarrow> wstring list option \<times> event list" where
  "append_search_paths api rest paths =
     (case strtok_r rest '':'' of
        (None, _) \<Rightarrow> (Some paths, [])
      | (Some token, rest') \<Rightarrow>
          (case Py_DecodeLocale api token of
             None \<Rightarrow>
               (let (r, ev) = append_search_paths api rest' paths
                in (r, Ev_DecodeLocale token # ev))
           | Some wpath \<Rightarrow>
               if PyStatus_Exception (PyWideStringList_Append api paths wpath)
               then (None, [Ev_DecodeLocale token, Ev_WideStringList_Append wpath,
                            Ev_RawFree wpath])
               else
                 (let (r, ev) = append_search_paths api rest' (paths @ [wpath])
                  in (r, [Ev_DecodeLocale token, Ev_WideStringList_Append wpath,
                          Ev_RawFree wpath] @ ev))))"
  by pat_completeness auto
termination
proof (relation "measure (\<lambda>(api, rest, paths). length rest)")
  have shorter: "length y < length rest"
    if tok: "(x, y) = strtok_r rest '':''" and some: "x = Some t"
    for x :: "string option" and y rest t :: string
  proof -
    let ?s = "dropWhile (\<lambda>c. c \<in> set '':'') rest"
    from tok some have ne: "?s \<noteq> []"
      by (auto simp: strtok_r_def Let_def split: if_splits)
    from tok some have y: "y = drop 1 (dropWhile (\<lambda>c. c \<notin> set '':'') ?s)"
      by (auto simp: strtok_r_def Let_def split: if_splits)
    have "length (dropWhile (\<lambda>c. c \<notin> set '':'') ?s) \<le> length ?s"
      by (rule length_dropWhile_le)
    with ne y have "length y < length ?s"
      by (cases ?s) auto
    moreover have "length ?s \<le> length rest"
      by (rule length_dropWhile_le)
    ultimately show ?thesis by simp
  qed
  show "wf (measure (\<lambda>(api, rest, paths). length rest))" by simp
  show "((api, y, paths), api, rest, paths) \<in> measure (\<lambda>(api, rest, paths). length rest)"
    if "(x, y) = strtok_r rest '':''" and "x = Some t"
    for api :: py_api and rest y t :: string and paths :: "wstring list" and x
    using shorter [OF that] by simp
  show "((api, y, paths @ [w]), api, rest, paths) \<in> measure (\<lambda>(api, rest, paths). length rest)"
    if "(x, y) = strtok_r rest '':''" and "x = Some t"
    for api :: py_api and rest y t :: string and paths :: "wstring list" and x w
    using shorter [OF that] by simp
qed

text \<open>
  The three stages of the body return \<open>Inl\<close> where the source executes \<open>return false\<close>
  (with the static variables and the events up to that point) and \<open>Inr\<close> where it goes on.
\<close>

text \<open>Lines 90 to 101: the interpreter home.\<close>

definition set_python_home ::
    "py_api \<Rightarrow> cstring \<Rightarrow> PyConfig \<Rightarrow> bridge_state \<Rightarrow>
       (bridge_state \<times> event list) + (PyConfig \<times> bridge_state \<times> event list)" where
  "set_python_home api pythonHome config s =
     (case pythonHome of
        None \<Rightarrow> Inr (config, s, [])
      | Some h \<Rightarrow>
         if 0 < length h then
           (case Py_DecodeLocale api h of
              None \<Rightarrow> Inl (s\<lparr> s_pythonHomeW := None \<rparr>, [Ev_DecodeLocale h, Ev_Config_Clear])
            | Some w \<Rightarrow>
               if PyStatus_Exception (PyConfig_SetString api config w)
               then Inl (s\<lparr> s_pythonHomeW := Some w \<rparr>,
                         [Ev_DecodeLocale h, Ev_Config_SetString w, Ev_Config_Clear])
               else Inr (config\<lparr> home := Some w \<rparr>, s\<lparr> s_pythonHomeW := Some w \<rparr>,
                         [Ev_DecodeLocale h, Ev_Config_SetString w]))
         else Inr (config, s, []))"

text \<open>Lines 104 to 127: the module search paths.\<close>

definition add_search_paths ::
    "py_api \<Rightarrow> cstring \<Rightarrow> PyConfig \<Rightarrow> event list + (PyConfig \<times> event list)" where
  "add_search_paths api pythonPath config =
     (case pythonPath of
        None \<Rightarrow> Inr (config, [])
      | Some p \<Rightarrow>
         if 0 < length p then
           (case strdup api p of
              None \<Rightarrow> Inl [Ev_strdup p, Ev_Config_Clear]
            | Some mutablePath \<Rightarrow>
               (case append_search_paths api mutablePath (module_search_paths config) of
                  (None, ev) \<Rightarrow> Inl (Ev_strdup p # ev @ [Ev_free p, Ev_Config_Clear])
                | (Some paths, ev) \<Rightarrow>
                    Inr (config\<lparr> module_search_paths := paths \<rparr>,
                         Ev_strdup p # ev @ [Ev_free p])))
         else Inr (config, []))"

text \<open>
  The whole function; the third component of the result is the list of events, the
  first the returned \<open>bool\<close>.
\<close>

definition novin_python_initialize ::
    "py_api \<Rightarrow> cstring \<Rightarrow> cstring \<Rightarrow> bridge_state \<Rightarrow> bool \<times> bridge_state \<times> event list" where
  "novin_python_initialize api pythonHome pythonPath s =
     (if s_pythonInitialized s then (True, s, [])
      else
       (let config = (PyConfig_InitIsolatedConfig api)\<lparr> isolated := 1, use_environment := 0 \<rparr>
        in (case set_python_home api pythonHome config s of
              Inl (s1, ev1) \<Rightarrow> (False, s1, Ev_Config_InitIsolated # ev1)
            | Inr (config1, s1, ev1) \<Rightarrow>
               (case add_search_paths api pythonPath config1 of
                  Inl ev2 \<Rightarrow> (False, s1, Ev_Config_InitIsolated # ev1 @ ev2)
                | Inr (config2, ev2) \<Rightarrow>
                   (let status = Py_InitializeFromConfig api config2;
                        ev3 = Ev_Config_InitIsolated # ev1 @ ev2 @ [Ev_InitializeFromConfig config2]
                    in if PyStatus_Exception status
                       then (False, s1, ev3 @ [Ev_Config_Clear, Ev_Err_Print])
                       else if \<not> Py_IsInitialized api config2
                       then (False, s1, ev3 @ [Ev_IsInitialized, Ev_Config_Clear, Ev_Err_Print])
                       else (True,
                             s1\<lparr> s_mainThreadState := PyEval_SaveThread api,
                                 s_pythonInitialized := True \<rparr>,
                             ev3 @ [Ev_IsInitialized, Ev_Config_Clear, Ev_SaveThread]))))))"

section \<open>novin_python_free_string and novin_python_finalize\<close>

text \<open>Freeing touches no static variable; what the call does is its list of events.\<close>

definition novin_python_free_string :: "cstring \<Rightarrow> event list" where
  "novin_python_free_string string =
     (case string of None \<Rightarrow> [] | Some str \<Rightarrow> [Ev_free str])"

definition novin_python_finalize :: "bridge_state \<Rightarrow> bridge_state \<times> event list" where
  "novin_python_finalize s =
     (if \<not> s_pythonInitialized s then (s, [])
      else
       (let ev1 = (case s_mainThreadState s of
                     None \<Rightarrow> []
                   | Some t \<Rightarrow> [Ev_RestoreThread t]);
            ev2 = Ev_GILState_Ensure #
                  (case s_novinBridgeInstance s of None \<Rightarrow> [] | Some i \<Rightarrow> [Ev_DECREF i])
                  @ [Ev_GILState_Release, Ev_Finalize];
            ev3 = (case s_pythonHomeW s of None \<Rightarrow> [] | Some h \<Rightarrow> [Ev_RawFree h]);
            ev4 = (case s_pythonPathW s of None \<Rightarrow> [] | Some p \<Rightarrow> [Ev_RawFree p])
        in (\<lparr> s_pythonInitialized = False, s_novinBridgeInstance = None,
              s_pythonHomeW = None, s_pythonPathW = None, s_mainThreadState = None \<rparr>,
            ev1 @ ev2 @ ev3 @ ev4)))"

section \<open>Sequences of calls\<close>

text \<open>
  A host program is a list of calls, each with the environment it meets. Only the static
  variables pass from one call to the next.
\<close>

datatype bridge_call =
    Call_initialize py_api cstring cstring
  | Call_process_request py_api string cstring cstring bool
  | Call_free_string cstring
  | Call_finalize

fun step :: "bridge_call \<Rightarrow> bridge_state \<Rightarrow> bridge_state" where
  "step (Call_initialize api pythonHome pythonPath) s =
     fst (snd (novin_python_initialize api pythonHome pythonPath s))"
| "step (Call_process_request api requestJson clientId brandConfigJson errorOut) s =
     state (novin_python_process_request api requestJson clientId brandConfigJson errorOut s)"
| "step (Call_free_string string) s = s"
| "step Call_finalize s = fst (novin_python_finalize s)"

fun run :: "bridge_call list \<Rightarrow> bridge_state \<Rightarrow> bridge_state" where
  "run [] s = s"
| "run (c # cs) s = run cs (step c s)"

section \<open>Notions the properties are stated with\<close>

subsection \<open>The lock\<close>

text \<open>
  \<open>held es\<close>: the lock is held and \<open>es\<close> is what the call still does. It must release
  the lock, must not acquire or release it before that, and after the release only libc
  is called. \<open>gil_bracketed\<close>: the call starts by acquiring the lock and then satisfies
  \<open>held\<close>.
\<close>

fun held :: "event list \<Rightarrow> bool" where
  "held [] = False"
| "held (Ev_GILState_Release # es) = list_all is_libc es"
| "held (e # es) = (\<not> is_gil e \<and> held es)"

fun gil_bracketed :: "event list \<Rightarrow> bool" where
  "gil_bracketed (Ev_GILState_Ensure # es) = held es"
| "gil_bracketed _ = False"

subsection \<open>Construction of the instance, in the words of the specification\<close>

text \<open>The class: the module imported by its fixed name, its attribute of fixed name.\<close>

definition bridge_class :: "py_api \<Rightarrow> pyobj option" where
  "bridge_class api =
     (case PyUnicode_FromString api ''novin_ai_bridge'' of
        None \<Rightarrow> None
      | Some name \<Rightarrow>
         (case PyImport_Import api name of
            None \<Rightarrow> None
          | Some m \<Rightarrow> PyObject_GetAttrString api m ''NovinAIBridge''))"

text \<open>
  The parsed configuration: what \<open>json.loads\<close> returns for a non-empty blob; nothing for
  an absent or empty blob, and nothing when the parsing fails at any step (no \<open>json\<close>
  module, no \<open>loads\<close>, a blob that cannot be handed to the interpreter, a blob that
  \<open>loads\<close> refuses).
\<close>

definition parsed_config :: "py_api \<Rightarrow> cstring \<Rightarrow> pyobj option" where
  "parsed_config api brandConfigJson =
     (case brandConfigJson of
        None \<Rightarrow> None
      | Some cfg \<Rightarrow>
         if cfg = [] then None
         else
          (case PyImport_ImportModule api ''json'' of
             None \<Rightarrow> None
           | Some j \<Rightarrow>
              (case PyObject_GetAttrString api j ''loads'' of
                 None \<Rightarrow> None
               | Some loads \<Rightarrow>
                  (case PyUnicode_FromString api cfg of
                     None \<Rightarrow> None
                   | Some u \<Rightarrow> PyObject_CallObject api loads (PyTuple [Some u])))))"


text \<open>
  The instance: the class called with no argument for an absent or empty blob, and with
  the parsed configuration as its only argument for a non-empty one; nothing when the
  class cannot be had, the blob does not parse, or the constructor fails.
\<close>

definition constructed :: "py_api \<Rightarrow> cstring \<Rightarrow> pyobj option" where
  "constructed api brandConfigJson =
     (case bridge_class api of
        None \<Rightarrow> None
      | Some cls \<Rightarrow>
         (case brandConfigJson of
            None \<Rightarrow> PyObject_CallObject api cls (PyTuple [])
          | Some cfg \<Rightarrow>
             if cfg = [] then PyObject_CallObject api cls (PyTuple [])
             else
              (case parsed_config api brandConfigJson of
                 None \<Rightarrow> None
               | Some d \<Rightarrow> PyObject_CallObject api cls (PyTuple [Some d]))))"



subsection \<open>The messages\<close>

definition error_messages :: "string list" where
  "error_messages =
     [''Python runtime not initialized'',
      ''Failed to initialize NovinAIBridge'',
      ''NovinAIBridge missing process_request'',
      ''Python processing failed'',
      ''Failed to convert Python result to UTF-8'',
      ''Out of memory duplicating response'']"

text \<open>
  The ways a request fails (section 7 of the specification), each with its message, and
  the outcome of a request in the words of section 4.2, given whether the runtime is
  initialised and the instance the request works with: without the runtime it is not
  initialised; without an instance the construction has failed; then the method is
  resolved, called with the payload and the client (\<open>ios-client\<close> when absent), its
  result converted and the text duplicated, and each of these steps can fail.
\<close>

datatype failure =
    NotInitialized | BridgeInitFailed | MethodMissing | ProcessingFailed
  | EncodingFailed | OutOfMemory

fun message_of :: "failure \<Rightarrow> string" where
  "message_of NotInitialized = ''Python runtime not initialized''"
| "message_of BridgeInitFailed = ''Failed to initialize NovinAIBridge''"
| "message_of MethodMissing = ''NovinAIBridge missing process_request''"
| "message_of ProcessingFailed = ''Python processing failed''"
| "message_of EncodingFailed = ''Failed to convert Python result to UTF-8''"
| "message_of OutOfMemory = ''Out of memory duplicating response''"

definition method_outcome :: "py_api \<Rightarrow> string \<Rightarrow> cstring \<Rightarrow> pyobj \<Rightarrow> failure + string" where
  "method_outcome api requestJson clientId inst =
     (case PyObject_GetAttrString api inst ''process_request'' of
        None \<Rightarrow> Inl MethodMissing
      | Some processFunc \<Rightarrow>
         (let payload = PyUnicode_FromString api requestJson;
              client = PyUnicode_FromString api
                         (case clientId of None \<Rightarrow> ''ios-client'' | Some c \<Rightarrow> c)
          in (case call_object api (payload = None \<or> client = None) processFunc
                     (PyTuple [payload, client]) of
                None \<Rightarrow> Inl ProcessingFailed
              | Some res \<Rightarrow>
                 (case PyUnicode_AsUTF8 api res of
                    None \<Rightarrow> Inl EncodingFailed
                  | Some str \<Rightarrow> if strdup_succeeds api str then Inr str else Inl OutOfMemory))))"

definition request_outcome ::
    "py_api \<Rightarrow> string \<Rightarrow> cstring \<Rightarrow> bool \<Rightarrow> pyobj option \<Rightarrow> failure + string" where
  "request_outcome api requestJson clientId initialized instance =
     (if \<not> initialized then Inl NotInitialized
      else (case instance of
              None \<Rightarrow> Inl BridgeInitFailed
            | Some inst \<Rightarrow> method_outcome api requestJson clientId inst))"

text \<open>
  A result reports an outcome when a success returns the text, duplicated by the call,
  and leaves the slot unwritten, and a failure returns NULL and assigns to the slot what
  \<open>strdup\<close> gave for the message of that failure.
\<close>

definition reports :: "py_api \<Rightarrow> call_result \<Rightarrow> failure + string \<Rightarrow> bool" where
  "reports api r outcome =
     (case outcome of
        Inr str \<Rightarrow> ret r = Some str \<and> err_written r = None \<and> Ev_strdup str \<in> set (events r)
      | Inl f \<Rightarrow>
          ret r = None \<and>
          err_written r =
            Some (if strdup_succeeds api (message_of f) then Some (message_of f) else None) \<and>
          Ev_strdup (message_of f) \<in> set (events r))"

text \<open>
  What a caller that passed a slot finds: after a non-NULL return the slot was not
  written and the returned text was duplicated by the call; after a NULL return the slot
  holds what \<open>strdup\<close> gave for one of the messages.
\<close>

definition slot_contract :: "py_api \<Rightarrow> call_result \<Rightarrow> bool" where
  "slot_contract api r =
     ((ret r \<noteq> None \<longrightarrow>
         err_written r = None \<and> (\<exists>str. ret r = Some str \<and> Ev_strdup str \<in> set (events r)))
      \<and> (ret r = None \<longrightarrow>
         (\<exists>msg\<in>set error_messages. msg \<noteq> [] \<and>
            err_written r = Some (if strdup_succeeds api msg then Some msg else None) \<and>
            Ev_strdup msg \<in> set (events r))))"

subsection \<open>The search path, in the words of the specification\<close>

text \<open>
  The fields of a colon-separated text (\<open>a::b\<close> has the fields \<open>a\<close>, the empty one and
  \<open>b\<close>); the entries are the non-empty fields.
\<close>

fun colon_fields :: "string \<Rightarrow> string list" where
  "colon_fields [] = [[]]"
| "colon_fields (c # cs) =
     (if c = CHR '':'' then [] # colon_fields cs
      else (case colon_fields cs of
              [] \<Rightarrow> [[c]]
            | f # fs \<Rightarrow> (c # f) # fs))"

definition path_entries :: "string \<Rightarrow> string list" where
  "path_entries p = filter (\<lambda>f. f \<noteq> []) (colon_fields p)"

text \<open>Appending decoded entries one after the other, stopping at the first failure.\<close>

fun append_all :: "py_api \<Rightarrow> wstring list \<Rightarrow> wstring list \<Rightarrow> wstring list option" where
  "append_all api paths [] = Some paths"
| "append_all api paths (w # ws) =
     (if PyStatus_Exception (PyWideStringList_Append api paths w) then None
      else append_all api (paths @ [w]) ws)"

definition decoded_entries :: "py_api \<Rightarrow> string \<Rightarrow> wstring list" where
  "decoded_entries api p = List.map_filter (Py_DecodeLocale api) (path_entries p)"

text \<open>The causes for which initialisation fails.\<close>

definition isolated_config :: "py_api \<Rightarrow> PyConfig" where
  "isolated_config api = (PyConfig_InitIsolatedConfig api)\<lparr> isolated := 1, use_environment := 0 \<rparr>"

definition home_decode_fails :: "py_api \<Rightarrow> cstring \<Rightarrow> bool" where
  "home_decode_fails api pythonHome =
     (case pythonHome of None \<Rightarrow> False
      | Some h \<Rightarrow> h \<noteq> [] \<and> Py_DecodeLocale api h = None)"

definition home_set_fails :: "py_api \<Rightarrow> cstring \<Rightarrow> bool" where
  "home_set_fails api pythonHome =
     (case pythonHome of None \<Rightarrow> False
      | Some h \<Rightarrow> h \<noteq> [] \<and>
          (case Py_DecodeLocale api h of None \<Rightarrow> False
           | Some w \<Rightarrow> PyStatus_Exception (PyConfig_SetString api (isolated_config api) w)))"

definition path_copy_fails :: "py_api \<Rightarrow> cstring \<Rightarrow> bool" where
  "path_copy_fails api pythonPath =
     (case pythonPath of None \<Rightarrow> False
      | Some p \<Rightarrow> p \<noteq> [] \<and> \<not> strdup_succeeds api p)"

definition path_append_fails :: "py_api \<Rightarrow> cstring \<Rightarrow> bool" where
  "path_append_fails api pythonPath =
     (case pythonPath of None \<Rightarrow> False
      | Some p \<Rightarrow> p \<noteq> [] \<and>
          append_all api (module_search_paths (isolated_config api)) (decoded_entries api p) = None)"

text \<open>The configuration that reaches the interpreter when no earlier step has failed.\<close>

definition planned_config :: "py_api \<Rightarrow> cstring \<Rightarrow> cstring \<Rightarrow> PyConfig" where
  "planned_config api pythonHome pythonPath =
     (isolated_config api)
       \<lparr> home := (case pythonHome of None \<Rightarrow> home (isolated_config api)
                  | Some h \<Rightarrow> if h = [] then home (isolated_config api)
                              else Py_DecodeLocale api h),
         module_search_paths :=
           (case pythonPath of None \<Rightarrow> module_search_paths (isolated_config api)
            | Some p \<Rightarrow> if p = [] then module_search_paths (isolated_config api)
                        else module_search_paths (isolated_config api) @ decoded_entries api p) \<rparr>"

definition startup_fails :: "py_api \<Rightarrow> PyConfig \<Rightarrow> bool" where
  "startup_fails api config =
     (PyStatus_Exception (Py_InitializeFromConfig api config) \<or> \<not> Py_IsInitialized api config)"

section \<open>Example environments\<close>

text \<open>
  An interpreter in which everything works: the collaborator module is object 1, its
  class object 2, the instance object 3; \<open>json\<close> is object 4, \<open>loads\<close> object 5 and
  a parsed blob object 7; the bound method is object 6 and answers with object 8, the
  text \<open>ok\<close>. Text converted for the interpreter is object 9.
\<close>

definition good_api :: py_api where
  "good_api =
     \<lparr> PyConfig_InitIsolatedConfig =
         \<lparr> isolated = 1, use_environment = 0, home = None, module_search_paths = [] \<rparr>,
       Py_DecodeLocale = (\<lambda>str. if str = ''bad'' then None else Some (map of_char str)),
       PyConfig_SetString = (\<lambda>config w. Status_Ok),
       PyWideStringList_Append = (\<lambda>paths w. Status_Ok),
       Py_InitializeFromConfig = (\<lambda>config. Status_Ok),
       Py_IsInitialized = (\<lambda>config. True),
       PyEval_SaveThread = Some 1,
       strdup_succeeds = (\<lambda>str. True),
       PyUnicode_FromString = (\<lambda>str. Some (PyObj 9)),
       PyImport_Import = (\<lambda>name. Some (PyObj 1)),
       PyImport_ImportModule = (\<lambda>name. Some (PyObj 4)),
       PyObject_GetAttrString =
         (\<lambda>ob name. if name = ''NovinAIBridge'' then Some (PyObj 2)
                     else if name = ''loads'' then Some (PyObj 5)
                     else if name = ''process_request'' then Some (PyObj 6)
                     else None),
       PyObject_CallObject =
         (\<lambda>f args. if f = PyObj 2 then Some (PyObj 3)
                    else if f = PyObj 5 then Some (PyObj 7)
                    else if f = PyObj 6 then Some (PyObj 8)
                    else None),
       PyUnicode_AsUTF8 = (\<lambda>ob. if ob = PyObj 8 then Some ''ok'' else None) \<rparr>"

text \<open>The same interpreter with no memory left for \<open>strdup\<close>.\<close>

definition no_memory_api :: py_api where
  "no_memory_api = good_api\<lparr> strdup_succeeds := (\<lambda>str. False) \<rparr>"

text \<open>
  The same interpreter where \<open>json.loads\<close> raises on the blob; the class itself is in
  order.
\<close>

definition unparsable_api :: py_api where
  "unparsable_api = good_api
     \<lparr> PyObject_CallObject :=
         (\<lambda>f args. if f = PyObj 5 then None else PyObject_CallObject good_api f args) \<rparr>"

text \<open>The same interpreter where the collaborator's method raises.\<close>

definition raising_api :: py_api where
  "raising_api = good_api
     \<lparr> PyObject_CallObject :=
         (\<lambda>f args. if f = PyObj 6 then None else PyObject_CallObject good_api f args) \<rparr>"

text \<open>The same interpreter where the collaborator module cannot be imported.\<close>

definition no_module_api :: py_api where
  "no_module_api = good_api\<lparr> PyImport_Import := (\<lambda>name. None) \<rparr>"

text \<open>The same interpreter where the configuration refuses the home string.\<close>

definition home_rejected_api :: py_api where
  "home_rejected_api = good_api\<lparr> PyConfig_SetString := (\<lambda>config w. Status_Error) \<rparr>"

text \<open>The static variables after a successful start, before any request.\<close>

definition started_state :: bridge_state where
  "started_state = \<lparr> s_pythonInitialized = True, s_novinBridgeInstance = None,
     s_pythonHomeW = None, s_pythonPathW = None, s_mainThreadState = Some 1 \<rparr>"

section \<open>Auxiliary facts\<close>

lemma held_append: "\<forall>e\<in>set xs. \<not> is_gil e \<Longrightarrow> held (xs @ ys) = held ys"
proof (induction xs)
  case Nil
  then show ?case by simp
next
  case (Cons a xs)
  then show ?case by (cases a) simp_all
qed

lemma held_decomp:
  "held es \<Longrightarrow> \<exists>mid post. es = mid @ Ev_GILState_Release # post \<and>
      (\<forall>e\<in>set mid. \<not> is_gil e) \<and> (\<forall>e\<in>set post. is_libc e)"
proof (induction es)
  case Nil
  then show ?case by simp
next
  case (Cons a es)
  show ?case
  proof (cases "a = Ev_GILState_Release")
    case True
    with Cons.prems have "\<forall>e\<in>set es. is_libc e" by (simp add: list_all_iff)
    with True have "a # es = [] @ Ev_GILState_Release # es \<and> (\<forall>e\<in>set []. \<not> is_gil e) \<and> (\<forall>e\<in>set es. is_libc e)"
      by simp
    then show ?thesis by blast
  next
    case False
    with Cons.prems have a: "\<not> is_gil a" and h: "held es" by (cases a; simp)+
    from Cons.IH [OF h] obtain mid post where
      mp: "es = mid @ Ev_GILState_Release # post" "\<forall>e\<in>set mid. \<not> is_gil e" "\<forall>e\<in>set post. is_libc e"
      by blast
    with a have "a # es = (a # mid) @ Ev_GILState_Release # post \<and> (\<forall>e\<in>set (a # mid). \<not> is_gil e) \<and> (\<forall>e\<in>set post. is_libc e)"
      by simp
    then show ?thesis by blast
  qed
qed

lemma tuple_one: "PyTuple_SetItem (PyTuple_New (Suc 0)) 0 x = PyTuple [x]"
  by (simp add: PyTuple_New_def)

lemma tuple_none: "PyTuple_New 0 = PyTuple []"
  by (simp add: PyTuple_New_def)

lemma brand_config_args_no_gil: "\<forall>e\<in>set (snd (brand_config_args api cfg)). \<not> is_gil e"
  by (simp add: brand_config_args_def Let_def split: option.splits)

lemma tuple_two:
  "PyTuple_SetItem (PyTuple_SetItem (PyTuple_New 2) 0 x) 1 y = PyTuple [x, y]"
  by (simp add: PyTuple_New_def numeral_2_eq_2)

lemma brand_config_args_parsed:
  "fst (brand_config_args api cfg) =
     (map_option (\<lambda>d. PyTuple [Some d]) (parsed_config api cfg),
      (case cfg of None \<Rightarrow> False | Some c \<Rightarrow> c \<noteq> [] \<and> parsed_config api cfg = None))"
  by (auto simp: brand_config_args_def parsed_config_def call_object_def tuple_one Let_def
      split: option.splits)

lemma ensure_no_gil: "\<forall>e\<in>set (snd (ensure_bridge_initialized api cfg s)). \<not> is_gil e"
  using brand_config_args_no_gil [of api cfg]
  by (auto simp: ensure_bridge_initialized_def Let_def split: option.splits prod.splits)

lemma ensure_state:
  "s_novinBridgeInstance s = None \<Longrightarrow>
   fst (ensure_bridge_initialized api cfg s) = s\<lparr> s_novinBridgeInstance := constructed api cfg \<rparr>"
proof -
  assume unset: "s_novinBridgeInstance s = None"
  obtain parsed pending evj where b: "brand_config_args api cfg = ((parsed, pending), evj)"
    by (cases "brand_config_args api cfg") auto
  with brand_config_args_parsed [of api cfg]
  have p: "parsed = map_option (\<lambda>d. PyTuple [Some d]) (parsed_config api cfg)"
    and q: "pending = (case cfg of None \<Rightarrow> False
                       | Some c \<Rightarrow> c \<noteq> [] \<and> parsed_config api cfg = None)"
    by simp_all
  have nil: "cfg = None \<or> cfg = Some [] \<Longrightarrow> parsed_config api cfg = None"
    by (auto simp: parsed_config_def)
  from unset b p q nil show ?thesis
    by (auto simp: ensure_bridge_initialized_def constructed_def bridge_class_def
        call_object_def tuple_none Let_def split: option.splits)
qed

lemma fail_with_simps:
  "ret (fail_with api eo msg s ev) = None"
  "err_written (fail_with api eo msg s ev) = (if eo then Some (strdup api msg) else None)"
  "state (fail_with api eo msg s ev) = s"
  "events (fail_with api eo msg s ev) = ev @ (if eo then [Ev_strdup msg] else [])"
  by (simp_all add: fail_with_def)

lemma call_state: "state (call_process_request api req cid eo s inst) = s"
  by (simp add: call_process_request_def Let_def fail_with_simps split: option.splits)

lemma call_held: "held (events (call_process_request api req cid eo s inst))"
  by (simp add: call_process_request_def Let_def fail_with_simps split: option.splits)


lemma process_request_bracketed:
  assumes "s_pythonInitialized s"
  shows "gil_bracketed (events (novin_python_process_request api req cid cfg eo s))"
  using assms ensure_no_gil [of api cfg s]
  by (simp add: novin_python_process_request_def Let_def fail_with_simps held_append call_held
      split: option.splits prod.splits)

lemma process_request_state:
  assumes "s_pythonInitialized s"
  shows "state (novin_python_process_request api req cid cfg eo s) =
     (if s_novinBridgeInstance s = None then s\<lparr> s_novinBridgeInstance := constructed api cfg \<rparr> else s)"
  using assms ensure_state [of s api cfg]
  by (auto simp: novin_python_process_request_def Let_def fail_with_simps call_state
      split: option.splits prod.splits)

lemma process_request_uninit:
  assumes "\<not> s_pythonInitialized s"
  shows "novin_python_process_request api req cid cfg eo s =
     fail_with api eo ''Python runtime not initialized'' s []"
  using assms by (simp add: novin_python_process_request_def)


lemma finalize_flag: "\<not> s_pythonInitialized (fst (novin_python_finalize s))"
  by (simp add: novin_python_finalize_def Let_def)


lemma error_messages_nonempty: "msg \<in> set error_messages \<Longrightarrow> msg \<noteq> []"
  by (auto simp: error_messages_def)

lemma slot_contract_fail:
  "msg \<in> set error_messages \<Longrightarrow> slot_contract api (fail_with api True msg s ev)"
  unfolding slot_contract_def fail_with_def strdup_def
  using error_messages_nonempty [of msg] by auto

lemma slot_contract_success:
  "Ev_strdup str \<in> set ev \<Longrightarrow>
   slot_contract api \<lparr> ret = Some str, err_written = None, state = s, events = ev \<rparr>"
  by (simp add: slot_contract_def)

lemma slot_contract_no_memory:
  "Ev_strdup ''Out of memory duplicating response'' \<in> set ev \<Longrightarrow>
   w = (if strdup_succeeds api ''Out of memory duplicating response''
        then Some ''Out of memory duplicating response'' else None) \<Longrightarrow>
   slot_contract api \<lparr> ret = None, err_written = Some w, state = s, events = ev \<rparr>"
  by (simp add: slot_contract_def error_messages_def)

lemma in_error_messages:
  "''Python runtime not initialized'' \<in> set error_messages"
  "''Failed to initialize NovinAIBridge'' \<in> set error_messages"
  "''NovinAIBridge missing process_request'' \<in> set error_messages"
  "''Python processing failed'' \<in> set error_messages"
  "''Failed to convert Python result to UTF-8'' \<in> set error_messages"
  by (simp_all add: error_messages_def)

lemma slot_contract_prefix:
  "slot_contract api r \<Longrightarrow> set (events r) \<subseteq> set ev \<Longrightarrow>
   slot_contract api (r\<lparr> events := ev \<rparr>)"
  by (auto simp: slot_contract_def)

lemma call_slot: "slot_contract api (call_process_request api req cid True s inst)"
  by (simp add: call_process_request_def Let_def slot_contract_fail in_error_messages
      slot_contract_success slot_contract_no_memory strdup_def
      split: option.splits)

lemma process_request_slot:
  "slot_contract api (novin_python_process_request api req cid cfg True s)"
proof (cases "s_pythonInitialized s")
  case False
  then show ?thesis
    by (simp add: process_request_uninit slot_contract_fail in_error_messages)
next
  case True
  obtain s1 ev1 where e: "(if s_novinBridgeInstance s = None
      then ensure_bridge_initialized api cfg s else (s, [])) = (s1, ev1)"
    by (cases "if s_novinBridgeInstance s = None
      then ensure_bridge_initialized api cfg s else (s, [])") blast
  show ?thesis
  proof (cases "s_novinBridgeInstance s1")
    case None
    with True e show ?thesis
      by (simp add: novin_python_process_request_def slot_contract_fail in_error_messages)
  next
    case (Some inst)
    have "slot_contract api
        ((call_process_request api req cid True s1 inst)
           \<lparr> events := (Ev_GILState_Ensure # ev1)
                @ events (call_process_request api req cid True s1 inst) \<rparr>)"
      by (rule slot_contract_prefix [OF call_slot]) auto
    with True e Some show ?thesis
      by (simp add: novin_python_process_request_def Let_def)
  qed
qed

lemma initialize_true_flag:
  "fst (novin_python_initialize api h p s) \<Longrightarrow>
   s_pythonInitialized (fst (snd (novin_python_initialize api h p s)))"
  by (auto simp: novin_python_initialize_def Let_def split: sum.splits prod.splits if_splits)

lemma initialize_instance:
  "s_novinBridgeInstance (fst (snd (novin_python_initialize api h p s))) = s_novinBridgeInstance s"
  by (auto simp: novin_python_initialize_def set_python_home_def Let_def
      split: sum.splits prod.splits if_splits option.splits)

lemma initialize_flag_mono:
  "s_pythonInitialized s \<Longrightarrow> s_pythonInitialized (fst (snd (novin_python_initialize api h p s)))"
  by (simp add: novin_python_initialize_def)

lemma set_python_home_empty:
  "set_python_home api (Some []) config s = set_python_home api None config s"
  by (simp add: set_python_home_def)

lemma add_search_paths_empty:
  "add_search_paths api (Some []) config = add_search_paths api None config"
  by (simp add: add_search_paths_def)

lemma step_invariant:
  assumes "s_novinBridgeInstance s \<noteq> None \<longrightarrow> s_pythonInitialized s"
  shows "s_novinBridgeInstance (step c s) \<noteq> None \<longrightarrow> s_pythonInitialized (step c s)"
proof (cases c)
  case (Call_initialize api h p)
  with assms show ?thesis
    by (simp add: initialize_instance initialize_flag_mono)
next
  case (Call_process_request api req cid cfg eo)
  show ?thesis
  proof (cases "s_pythonInitialized s")
    case True
    with Call_process_request show ?thesis by (simp add: process_request_state)
  next
    case False
    with Call_process_request assms show ?thesis
      by (simp add: process_request_uninit fail_with_simps)
  qed
next
  case (Call_free_string x)
  with assms show ?thesis by simp
next
  case Call_finalize
  with assms show ?thesis by (auto simp: novin_python_finalize_def Let_def)
qed

lemma run_invariant:
  "s_novinBridgeInstance s \<noteq> None \<longrightarrow> s_pythonInitialized s \<Longrightarrow>
   s_novinBridgeInstance (run calls s) \<noteq> None \<longrightarrow> s_pythonInitialized (run calls s)"
proof (induction calls arbitrary: s)
  case Nil
  then show ?case by simp
next
  case (Cons c calls)
  from Cons.prems have "s_novinBridgeInstance (step c s) \<noteq> None \<longrightarrow> s_pythonInitialized (step c s)"
    by (rule step_invariant)
  then show ?case using Cons.IH by simp
qed






lemma colon_fields_unfold:
  "colon_fields s =
     takeWhile (\<lambda>c. c \<noteq> CHR '':'') s #
       (if dropWhile (\<lambda>c. c \<noteq> CHR '':'') s = [] then []
        else colon_fields (drop 1 (dropWhile (\<lambda>c. c \<noteq> CHR '':'') s)))"
proof (induction s)
  case Nil
  show ?case by simp
next
  case (Cons c cs)
  show ?case
  proof (cases "c = CHR '':''")
    case True
    then show ?thesis by simp
  next
    case False
    let ?f = "takeWhile (\<lambda>c. c \<noteq> CHR '':'') cs"
    let ?fs = "if dropWhile (\<lambda>c. c \<noteq> CHR '':'') cs = [] then []
        else colon_fields (drop 1 (dropWhile (\<lambda>c. c \<noteq> CHR '':'') cs))"
    have shape: "colon_fields cs = ?f # ?fs" by (rule Cons.IH)
    from False have "colon_fields (c # cs) = (case colon_fields cs of [] \<Rightarrow> [[c]] | f # fs \<Rightarrow> (c # f) # fs)"
      by simp
    also have "\<dots> = (c # ?f) # ?fs" by (subst shape) simp
    finally show ?thesis using False by auto
  qed
qed

lemma path_entries_skip:
  "path_entries (dropWhile (\<lambda>c. c = CHR '':'') s) = path_entries s"
  by (induction s) (simp_all add: path_entries_def)

lemma path_entries_token:
  assumes "s \<noteq> []" and "hd s \<noteq> CHR '':''"
  shows "path_entries s =
     takeWhile (\<lambda>c. c \<noteq> CHR '':'') s #
       path_entries (drop 1 (dropWhile (\<lambda>c. c \<noteq> CHR '':'') s))"
proof -
  let ?t = "takeWhile (\<lambda>c. c \<noteq> CHR '':'') s"
  let ?d = "dropWhile (\<lambda>c. c \<noteq> CHR '':'') s"
  let ?tail = "if ?d = [] then [] else colon_fields (drop 1 ?d)"
  from assms have ne: "?t \<noteq> []"
    by (cases s) simp_all
  have u: "colon_fields s = ?t # ?tail"
    by (rule colon_fields_unfold)
  have "path_entries s = filter (\<lambda>f. f \<noteq> []) (?t # ?tail)"
    unfolding path_entries_def by (simp only: u)
  also from ne have "\<dots> = ?t # filter (\<lambda>f. f \<noteq> []) ?tail"
    by simp
  also have "filter (\<lambda>f. f \<noteq> []) ?tail = path_entries (drop 1 ?d)"
  proof (cases "?d = []")
    case True
    have "path_entries [] = []" by (simp add: path_entries_def)
    then show ?thesis unfolding True by simp
  next
    case False
    then show ?thesis by (simp only: if_False path_entries_def)
  qed
  finally show ?thesis .
qed

lemma strtok_r_none:
  assumes "strtok_r rest '':'' = (None, r)"
  shows "path_entries rest = []"
proof -
  have nil: "path_entries [] = []" by (simp add: path_entries_def)
  from assms have "dropWhile (\<lambda>c. c = CHR '':'') rest = []"
    by (simp add: strtok_r_def Let_def split: if_splits)
  then have "path_entries (dropWhile (\<lambda>c. c = CHR '':'') rest) = path_entries []"
    by (rule arg_cong)
  with nil show ?thesis by (simp only: path_entries_skip)
qed

lemma strtok_r_some:
  assumes "strtok_r rest '':'' = (Some token, rest')"
  shows "path_entries rest = token # path_entries rest'"
proof -
  let ?s = "dropWhile (\<lambda>c. c = CHR '':'') rest"
  from assms have ne: "?s \<noteq> []"
    and tok: "token = takeWhile (\<lambda>c. c \<noteq> CHR '':'') ?s"
    and rst: "rest' = drop 1 (dropWhile (\<lambda>c. c \<noteq> CHR '':'') ?s)"
    by (simp_all add: strtok_r_def Let_def split: if_splits)
  from ne have "hd ?s \<noteq> CHR '':''"
    using hd_dropWhile [of "\<lambda>c. c = CHR '':''" rest] by simp
  with ne have "path_entries ?s = token # path_entries rest'"
    unfolding tok rst by (rule path_entries_token)
  then show ?thesis by (simp add: path_entries_skip)
qed

lemma append_search_paths_refines:
  "fst (append_search_paths api rest paths) = append_all api paths (decoded_entries api rest)"
proof (induction api rest paths rule: append_search_paths.induct)
  case (1 api rest paths)
  obtain tk rest' where st: "strtok_r rest '':'' = (tk, rest')"
    by (cases "strtok_r rest '':''") blast
  show ?case
  proof (cases tk)
    case None
    with st have "append_search_paths api rest paths = (Some paths, [])"
      by (subst append_search_paths.simps) simp
    moreover from st None have "path_entries rest = []"
      by (simp add: strtok_r_none)
    ultimately show ?thesis
      by (simp add: decoded_entries_def List.map_filter_simps)
  next
    case (Some token)
    with st have en: "path_entries rest = token # path_entries rest'"
      by (simp add: strtok_r_some)
    show ?thesis
    proof (cases "Py_DecodeLocale api token")
      case None
      have ih: "fst (append_search_paths api rest' paths) =
          append_all api paths (decoded_entries api rest')"
        by (rule "1.IH"(1) [OF st [symmetric] Some None])
      from st Some None have "fst (append_search_paths api rest paths) =
          fst (append_search_paths api rest' paths)"
        by (subst append_search_paths.simps) (simp split: prod.splits)
      with ih en None show ?thesis
        by (simp add: decoded_entries_def List.map_filter_simps)
    next
      case (Some wpath)
      note dec = this
      show ?thesis
      proof (cases "PyStatus_Exception (PyWideStringList_Append api paths wpath)")
        case True
        with st \<open>tk = Some token\<close> dec have "fst (append_search_paths api rest paths) = None"
          by (subst append_search_paths.simps) simp
        with en dec True show ?thesis
          by (simp add: decoded_entries_def List.map_filter_simps)
      next
        case False
        have ih: "fst (append_search_paths api rest' (paths @ [wpath])) =
            append_all api (paths @ [wpath]) (decoded_entries api rest')"
          by (rule "1.IH"(2) [OF st [symmetric] \<open>tk = Some token\<close> dec False])
        from st \<open>tk = Some token\<close> dec False have "fst (append_search_paths api rest paths) =
            fst (append_search_paths api rest' (paths @ [wpath]))"
          by (subst append_search_paths.simps) (simp split: prod.splits)
        with ih en dec False show ?thesis
          by (simp add: decoded_entries_def List.map_filter_simps)
      qed
    qed
  qed
qed

lemma append_all_result: "append_all api paths ws = Some r \<Longrightarrow> r = paths @ ws"
proof (induction ws arbitrary: paths)
  case Nil
  then show ?case by simp
next
  case (Cons w ws)
  from Cons.prems have "append_all api (paths @ [w]) ws = Some r"
    by (simp split: if_splits)
  then have "r = (paths @ [w]) @ ws" by (rule Cons.IH)
  then show ?case by simp
qed

lemma home_stage_fails:
  "(\<exists>x. set_python_home api h (isolated_config api) s = Inl x) =
     (home_decode_fails api h \<or> home_set_fails api h)"
  by (auto simp: set_python_home_def home_decode_fails_def home_set_fails_def
      split: option.splits if_splits)

lemma home_stage_config:
  "set_python_home api h (isolated_config api) s = Inr (c, s1, ev) \<Longrightarrow>
   c = (isolated_config api)\<lparr> home := home (planned_config api h p) \<rparr> \<and>
   s_pythonInitialized s1 = s_pythonInitialized s"
  by (auto simp: set_python_home_def planned_config_def split: option.splits if_splits)

lemma home_stage_flag:
  "set_python_home api h c s = Inl (s1, ev) \<Longrightarrow> s_pythonInitialized s1 = s_pythonInitialized s"
  by (auto simp: set_python_home_def split: option.splits if_splits)

lemma path_stage_fails:
  assumes "module_search_paths c = module_search_paths (isolated_config api)"
  shows "(\<exists>x. add_search_paths api p c = Inl x) =
     (path_copy_fails api p \<or> path_append_fails api p)"
proof (cases p)
  case None
  then show ?thesis
    by (simp add: add_search_paths_def path_copy_fails_def path_append_fails_def)
next
  case (Some str)
  show ?thesis
  proof (cases "str = []")
    case True
    with Some show ?thesis
      by (simp add: add_search_paths_def path_copy_fails_def path_append_fails_def)
  next
    case False
    show ?thesis
    proof (cases "strdup_succeeds api str")
      case no: False
      with Some False show ?thesis
        by (simp add: add_search_paths_def path_copy_fails_def path_append_fails_def strdup_def)
    next
      case yes: True
      obtain r ev where lp: "append_search_paths api str (module_search_paths c) = (r, ev)"
        by (cases "append_search_paths api str (module_search_paths c)") blast
      with append_search_paths_refines [of api str "module_search_paths c"]
      have r: "r = append_all api (module_search_paths c) (decoded_entries api str)" by simp
      show ?thesis
      proof (cases r)
        case None
        with Some False yes lp have "add_search_paths api p c =
            Inl (Ev_strdup str # ev @ [Ev_free str, Ev_Config_Clear])"
          by (simp add: add_search_paths_def strdup_def del: append_search_paths.simps)
        moreover from None r assms Some False have "path_append_fails api p"
          by (simp add: path_append_fails_def)
        ultimately show ?thesis by simp
      next
        case (Some paths)
        with \<open>p = Some str\<close> False yes lp have "add_search_paths api p c =
            Inr (c\<lparr> module_search_paths := paths \<rparr>, Ev_strdup str # ev @ [Ev_free str])"
          by (simp add: add_search_paths_def strdup_def del: append_search_paths.simps)
        moreover from Some r assms \<open>p = Some str\<close> False have "\<not> path_append_fails api p"
          by (simp add: path_append_fails_def)
        moreover from \<open>p = Some str\<close> yes have "\<not> path_copy_fails api p"
          by (simp add: path_copy_fails_def)
        ultimately show ?thesis by simp
      qed
    qed
  qed
qed

lemma path_stage_config:
  assumes "add_search_paths api p c = Inr (c2, ev)"
  shows "c2 = c\<lparr> module_search_paths :=
           (case p of None \<Rightarrow> module_search_paths c
            | Some str \<Rightarrow> if str = [] then module_search_paths c
                          else module_search_paths c @ decoded_entries api str) \<rparr>"
proof (cases p)
  case None
  with assms show ?thesis by (simp add: add_search_paths_def)
next
  case (Some str)
  show ?thesis
  proof (cases "str = []")
    case True
    with Some assms show ?thesis by (simp add: add_search_paths_def)
  next
    case False
    obtain r ev' where lp: "append_search_paths api str (module_search_paths c) = (r, ev')"
      by (cases "append_search_paths api str (module_search_paths c)") blast
    with append_search_paths_refines [of api str "module_search_paths c"]
    have r: "append_all api (module_search_paths c) (decoded_entries api str) = r" by simp
    from assms Some False lp obtain paths where "r = Some paths"
      and c2: "c2 = c\<lparr> module_search_paths := paths \<rparr>"
      by (cases r) (auto simp: add_search_paths_def strdup_def simp del: append_search_paths.simps
          split: if_splits)
    with r have "paths = module_search_paths c @ decoded_entries api str"
      by (simp add: append_all_result)
    with c2 Some False show ?thesis by simp
  qed
qed

lemma initialize_unfold:
  assumes "\<not> s_pythonInitialized s"
  shows "novin_python_initialize api h p s =
     (case set_python_home api h (isolated_config api) s of
        Inl (s1, ev1) \<Rightarrow> (False, s1, Ev_Config_InitIsolated # ev1)
      | Inr (config1, s1, ev1) \<Rightarrow>
         (case add_search_paths api p config1 of
            Inl ev2 \<Rightarrow> (False, s1, Ev_Config_InitIsolated # ev1 @ ev2)
          | Inr (config2, ev2) \<Rightarrow>
             (if startup_fails api config2
              then (False, s1,
                    Ev_Config_InitIsolated # ev1 @ ev2 @ Ev_InitializeFromConfig config2 #
                      (if PyStatus_Exception (Py_InitializeFromConfig api config2)
                       then [Ev_Config_Clear, Ev_Err_Print]
                       else [Ev_IsInitialized, Ev_Config_Clear, Ev_Err_Print]))
              else (True,
                    s1\<lparr> s_mainThreadState := PyEval_SaveThread api, s_pythonInitialized := True \<rparr>,
                    Ev_Config_InitIsolated # ev1 @ ev2 @
                      [Ev_InitializeFromConfig config2, Ev_IsInitialized, Ev_Config_Clear,
                       Ev_SaveThread]))))"
  using assms
  by (simp add: novin_python_initialize_def isolated_config_def startup_fails_def Let_def
      split: sum.splits prod.splits)

lemma initialize_result:
  assumes "\<not> s_pythonInitialized s"
  shows "(\<not> fst (novin_python_initialize api h p s)) =
       (home_decode_fails api h \<or> home_set_fails api h \<or> path_copy_fails api p \<or>
        path_append_fails api p \<or> startup_fails api (planned_config api h p))"
    and "\<not> fst (novin_python_initialize api h p s) \<Longrightarrow>
       \<not> s_pythonInitialized (fst (snd (novin_python_initialize api h p s)))"
proof -
  let ?c0 = "isolated_config api"
  note u = initialize_unfold [OF assms, of api h p]
  have both: "((\<not> fst (novin_python_initialize api h p s)) =
       (home_decode_fails api h \<or> home_set_fails api h \<or> path_copy_fails api p \<or>
        path_append_fails api p \<or> startup_fails api (planned_config api h p)))
     \<and> (\<not> fst (novin_python_initialize api h p s) \<longrightarrow>
       \<not> s_pythonInitialized (fst (snd (novin_python_initialize api h p s))))"
  proof (cases "set_python_home api h ?c0 s")
    case (Inl x)
    obtain s1 ev1 where x: "x = (s1, ev1)" by (cases x)
    from Inl have "home_decode_fails api h \<or> home_set_fails api h"
      using home_stage_fails [of api h s] by blast
    moreover from Inl x assms have "\<not> s_pythonInitialized s1"
      using home_stage_flag [of api h ?c0 s s1 ev1] by simp
    ultimately show ?thesis using Inl x by (auto simp: u)
  next
    case (Inr y)
    obtain c1 s1 ev1 where y: "y = (c1, s1, ev1)" by (cases y)
    from Inr have nohome: "\<not> (home_decode_fails api h \<or> home_set_fails api h)"
      using home_stage_fails [of api h s] by auto
    from Inr y have c1: "c1 = ?c0\<lparr> home := home (planned_config api h p) \<rparr>"
      and f1: "s_pythonInitialized s1 = s_pythonInitialized s"
      using home_stage_config [of api h s c1 s1 ev1 p] by simp_all
    from c1 have msp: "module_search_paths c1 = module_search_paths ?c0" by simp
    show ?thesis
    proof (cases "add_search_paths api p c1")
      case (Inl ev2)
      then have "path_copy_fails api p \<or> path_append_fails api p"
        using path_stage_fails [OF msp, of p] by blast
      with Inr y Inl f1 assms show ?thesis by (auto simp: u)
    next
      case (Inr z)
      obtain c2 ev2 where z: "z = (c2, ev2)" by (cases z)
      from Inr have nopath: "\<not> (path_copy_fails api p \<or> path_append_fails api p)"
        using path_stage_fails [OF msp, of p] by auto
      from Inr z have "c2 = c1\<lparr> module_search_paths :=
           (case p of None \<Rightarrow> module_search_paths c1
            | Some str \<Rightarrow> if str = [] then module_search_paths c1
                          else module_search_paths c1 @ decoded_entries api str) \<rparr>"
        using path_stage_config [of api p c1 c2 ev2] by simp
      then have "c2 = c1\<lparr> module_search_paths :=
           (case p of None \<Rightarrow> module_search_paths ?c0
            | Some str \<Rightarrow> if str = [] then module_search_paths ?c0
                          else module_search_paths ?c0 @ decoded_entries api str) \<rparr>"
        unfolding msp .
      with c1 have c2: "c2 = planned_config api h p"
        by (simp add: planned_config_def)
      from \<open>set_python_home api h ?c0 s = Inr y\<close> y Inr z c2 nohome nopath f1 assms
      show ?thesis by (auto simp: u)
    qed
  qed
  from both show "(\<not> fst (novin_python_initialize api h p s)) =
       (home_decode_fails api h \<or> home_set_fails api h \<or> path_copy_fails api p \<or>
        path_append_fails api p \<or> startup_fails api (planned_config api h p))" by blast
  from both show "\<not> fst (novin_python_initialize api h p s) \<Longrightarrow>
       \<not> s_pythonInitialized (fst (snd (novin_python_initialize api h p s)))" by blast
qed

lemma tuple_two_Suc:
  "PyTuple_SetItem (PyTuple_SetItem (PyTuple_New 2) 0 x) (Suc 0) y = PyTuple [x, y]"
  by (simp add: PyTuple_New_def numeral_2_eq_2)

lemma message_of_nonempty: "message_of f \<noteq> []"
  by (cases f) simp_all

lemma reports_fail:
  "reports api (fail_with api True (message_of f) s ev) (Inl f)"
  by (simp add: reports_def fail_with_def strdup_def)

lemma reports_prefix:
  "reports api r outcome \<Longrightarrow> set (events r) \<subseteq> set ev \<Longrightarrow>
   reports api (r\<lparr> events := ev \<rparr>) outcome"
  by (auto simp: reports_def split: sum.splits)

lemma call_reports:
  "reports api (call_process_request api req cid True s inst) (method_outcome api req cid inst)"
proof (cases "PyObject_GetAttrString api inst ''process_request''")
  case None
  then show ?thesis
    using reports_fail [of api MethodMissing]
    by (simp add: call_process_request_def method_outcome_def)
next
  case (Some processFunc)
  let ?u0 = "PyUnicode_FromString api req"
  let ?u1 = "PyUnicode_FromString api (case cid of None \<Rightarrow> ''ios-client'' | Some c \<Rightarrow> c)"
  show ?thesis
  proof (cases "call_object api (?u0 = None \<or> ?u1 = None) processFunc (PyTuple [?u0, ?u1])")
    case None
    with Some show ?thesis
      using reports_fail [of api ProcessingFailed]
      by (simp add: call_process_request_def method_outcome_def tuple_two_Suc Let_def)
  next
    case (Some res)
    note called = this
    show ?thesis
    proof (cases "PyUnicode_AsUTF8 api res")
      case None
      with \<open>PyObject_GetAttrString api inst ''process_request'' = Some processFunc\<close> called
      show ?thesis
        using reports_fail [of api EncodingFailed]
        by (simp add: call_process_request_def method_outcome_def tuple_two_Suc Let_def)
    next
      case (Some str)
      with \<open>PyObject_GetAttrString api inst ''process_request'' = Some processFunc\<close> called
      show ?thesis
        by (simp add: call_process_request_def method_outcome_def tuple_two_Suc Let_def
            reports_def strdup_def)
    qed
  qed
qed

lemma process_request_reports:
  "reports api (novin_python_process_request api req cid cfg True s)
     (request_outcome api req cid (s_pythonInitialized s)
        (s_novinBridgeInstance (state (novin_python_process_request api req cid cfg True s))))"
proof (cases "s_pythonInitialized s")
  case False
  then show ?thesis
    using reports_fail [of api NotInitialized]
    by (simp add: process_request_uninit request_outcome_def)
next
  case True
  obtain s1 ev1 where e: "(if s_novinBridgeInstance s = None
      then ensure_bridge_initialized api cfg s else (s, [])) = (s1, ev1)"
    by (cases "if s_novinBridgeInstance s = None
      then ensure_bridge_initialized api cfg s else (s, [])") blast
  show ?thesis
  proof (cases "s_novinBridgeInstance s1")
    case None
    with True e show ?thesis
      using reports_fail [of api BridgeInitFailed]
      by (simp add: novin_python_process_request_def request_outcome_def fail_with_simps)
  next
    case (Some inst)
    have "reports api
        ((call_process_request api req cid True s1 inst)
           \<lparr> events := (Ev_GILState_Ensure # ev1)
                @ events (call_process_request api req cid True s1 inst) \<rparr>)
        (method_outcome api req cid inst)"
      by (rule reports_prefix [OF call_reports]) auto
    with True e Some show ?thesis
      by (simp add: novin_python_process_request_def request_outcome_def Let_def call_state)
  qed
qed











lemmas eval_defs =
  novin_python_process_request_def call_process_request_def ensure_bridge_initialized_def brand_config_args_def
  fail_with_def strdup_def PyTuple_New_def Let_def
  good_api_def no_memory_api_def no_module_api_def unparsable_api_def raising_api_def
  call_object_def
  home_rejected_api_def started_state_def initial_state_def
  novin_python_initialize_def set_python_home_def add_search_paths_def
  novin_python_finalize_def


section \<open>The interpreter lock\<close>

text \<open>
  C1. A call of \<open>novin_python_process_request\<close> made while the runtime is initialised
  acquires the lock first and releases it before it returns, whichever way it ends
  (success, failed construction, missing method, failed processing, failed conversion,
  failed duplication): its events are the acquisition, then events that neither acquire
  nor release, then the release, then nothing but libc calls.
\<close>

theorem process_request_releases_gil:
  assumes "s_pythonInitialized s"
  shows "\<exists>mid post.
     events (novin_python_process_request api requestJson clientId brandConfigJson errorOut s)
       = Ev_GILState_Ensure # mid @ Ev_GILState_Release # post
     \<and> (\<forall>e\<in>set mid. \<not> is_gil e) \<and> (\<forall>e\<in>set post. is_libc e)"
proof -
  let ?es = "events (novin_python_process_request api requestJson clientId brandConfigJson errorOut s)"
  have b: "gil_bracketed ?es" using assms by (rule process_request_bracketed)
  then obtain rest where es: "?es = Ev_GILState_Ensure # rest" and h: "held rest"
    by (cases ?es rule: gil_bracketed.cases) simp_all
  from held_decomp [OF h] es show ?thesis by auto
qed

theorem process_request_releases_gil_witness:
  "s_pythonInitialized started_state \<and>
   (\<exists>mid post.
      events (novin_python_process_request no_module_api ''{}'' None None True started_state)
        = Ev_GILState_Ensure # mid @ Ev_GILState_Release # post
      \<and> (\<forall>e\<in>set mid. \<not> is_gil e) \<and> (\<forall>e\<in>set post. is_libc e))"
  using process_request_releases_gil [of started_state no_module_api "''{}''" None None True]
  by (simp add: started_state_def)

section \<open>Requests outside the initialised state\<close>

text \<open>
  C2, as amended. While the initialised flag is false, a call of
  \<open>novin_python_process_request\<close> returns NULL, leaves the static variables as they
  are and makes no call into the interpreter; if a slot was passed, its only event is the
  \<open>strdup\<close> of the not-initialised message and the slot receives the result of that
  \<open>strdup\<close>: the message when the duplication succeeds, NULL when it fails. The flag
  is false in the initial state and after every \<open>novin_python_finalize\<close>.
\<close>

theorem process_request_not_initialized:
  assumes "\<not> s_pythonInitialized s"
  shows "novin_python_process_request api requestJson clientId brandConfigJson errorOut s =
           \<lparr> ret = None,
             err_written =
               (if errorOut
                then Some (if strdup_succeeds api ''Python runtime not initialized''
                           then Some ''Python runtime not initialized'' else None)
                else None),
             state = s,
             events = (if errorOut then [Ev_strdup ''Python runtime not initialized''] else []) \<rparr>
         \<and> \<not> s_pythonInitialized initial_state
         \<and> \<not> s_pythonInitialized (fst (novin_python_finalize s0))"
  using assms
  by (simp add: process_request_uninit fail_with_def strdup_def initial_state_def finalize_flag)

theorem process_request_not_initialized_witness:
  "\<not> s_pythonInitialized initial_state \<and>
   novin_python_process_request good_api ''{}'' None None True initial_state =
     \<lparr> ret = None, err_written = Some (Some ''Python runtime not initialized''),
       state = initial_state, events = [Ev_strdup ''Python runtime not initialized''] \<rparr>"
  using process_request_not_initialized [of initial_state good_api "''{}''" None None True]
  by (simp add: initial_state_def good_api_def)


text \<open>
  The claim as stated promises the message in the slot. With no memory left for
  \<open>strdup\<close> the slot is assigned NULL.
\<close>

theorem process_request_not_initialized_counterexample:
  "\<not> s_pythonInitialized initial_state \<and>
   ret (novin_python_process_request no_memory_api ''{}'' None None True initial_state) = None \<and>
   err_written (novin_python_process_request no_memory_api ''{}'' None None True initial_state)
     = Some None \<and>
   err_written (novin_python_process_request no_memory_api ''{}'' None None True initial_state)
     \<noteq> Some (Some ''Python runtime not initialized'')"
  by (simp add: novin_python_process_request_def fail_with_def strdup_def initial_state_def
      no_memory_api_def good_api_def)

section \<open>The error slot\<close>

text \<open>
  C5, as amended. For a call that passes a slot, the result reports the outcome of the
  request. A success (the runtime initialised, the instance there, the method resolved,
  the call and the conversion of its result successful, the text duplicated) returns that
  text and leaves the slot unwritten. Each failure (not initialised, failed construction,
  missing method, failed processing, failed conversion, failed duplication) returns NULL
  and makes one assignment to the slot, of the result of \<open>strdup\<close> on the non-empty
  message of that failure: the message when the duplication succeeds, NULL when it
  fails.
\<close>

theorem process_request_error_slot:
  "let r = novin_python_process_request api requestJson clientId brandConfigJson True s in
     (case request_outcome api requestJson clientId (s_pythonInitialized s)
             (s_novinBridgeInstance (state r)) of
        Inr str \<Rightarrow> ret r = Some str \<and> err_written r = None \<and> Ev_strdup str \<in> set (events r)
      | Inl f \<Rightarrow>
          ret r = None \<and> message_of f \<noteq> [] \<and>
          err_written r =
            Some (if strdup_succeeds api (message_of f) then Some (message_of f) else None) \<and>
          Ev_strdup (message_of f) \<in> set (events r))
     \<and> (ret r \<noteq> None \<longrightarrow>
        err_written r = None \<and> (\<exists>str. ret r = Some str \<and> Ev_strdup str \<in> set (events r)))
     \<and> (ret r = None \<longrightarrow>
        (\<exists>msg\<in>set error_messages. msg \<noteq> [] \<and>
           err_written r = Some (if strdup_succeeds api msg then Some msg else None) \<and>
           Ev_strdup msg \<in> set (events r)))"
  using process_request_slot [of api requestJson clientId brandConfigJson s]
    process_request_reports [of api requestJson clientId brandConfigJson s]
  by (simp add: slot_contract_def reports_def Let_def message_of_nonempty split: sum.splits)

theorem process_request_error_slot_witness:
  "ret (novin_python_process_request good_api ''{}'' None None True started_state) = Some ''ok''
   \<and> err_written (novin_python_process_request good_api ''{}'' None None True started_state) = None
   \<and> request_outcome raising_api ''{}'' None True (Some (PyObj 3)) = Inl ProcessingFailed
   \<and> ret (novin_python_process_request raising_api ''{}'' None None True started_state) = None
   \<and> err_written (novin_python_process_request raising_api ''{}'' None None True started_state)
       = Some (Some ''Python processing failed'')"
  using process_request_error_slot [of good_api "''{}''" None None started_state]
    process_request_error_slot [of raising_api "''{}''" None None started_state]
  by (simp add: eval_defs request_outcome_def method_outcome_def)


text \<open>
  The claim as stated promises a non-NULL message after every failure. When the
  duplication of the response fails and the duplication of the message fails too, the call
  returns NULL and the slot holds NULL.
\<close>

theorem process_request_error_slot_counterexample:
  "ret (novin_python_process_request no_memory_api ''{}'' None None True started_state) = None
   \<and> err_written (novin_python_process_request no_memory_api ''{}'' None None True started_state)
       = Some None"
  by (simp add: eval_defs)

section \<open>Idempotent initialisation\<close>

text \<open>
  C6. \<open>novin_python_initialize\<close> on an initialised runtime returns true, changes no
  static variable and makes no call at all; so after a call that returned true, a second
  call, whatever its arguments and environment, returns true and configures nothing.
\<close>

theorem initialize_idempotent:
  "(s_pythonInitialized s \<longrightarrow> novin_python_initialize api pythonHome pythonPath s = (True, s, []))
   \<and> (fst (novin_python_initialize first_api first_home first_path s) \<longrightarrow>
        novin_python_initialize next_api next_home next_path
            (fst (snd (novin_python_initialize first_api first_home first_path s)))
          = (True, fst (snd (novin_python_initialize first_api first_home first_path s)), []))"
  using initialize_true_flag [of first_api first_home first_path s]
  by (simp add: novin_python_initialize_def [of next_api] novin_python_initialize_def [of api])

theorem initialize_idempotent_witness:
  "fst (novin_python_initialize good_api None None initial_state)
   \<and> s_pythonInitialized (fst (snd (novin_python_initialize good_api None None initial_state)))
   \<and> novin_python_initialize home_rejected_api (Some ''/h'') (Some ''/a'')
        (fst (snd (novin_python_initialize good_api None None initial_state)))
      = (True, fst (snd (novin_python_initialize good_api None None initial_state)), [])"
  using initialize_idempotent [where first_api = good_api and first_home = None and first_path = None
      and s = initial_state and next_api = home_rejected_api and next_home = "Some ''/h''"
      and next_path = "Some ''/a''"]
  by (simp add: eval_defs)


section \<open>When initialisation fails\<close>

text \<open>
  C7, as amended. On a runtime that is not initialised, \<open>novin_python_initialize\<close>
  returns false exactly when the home path does not decode, the configuration refuses
  the decoded home, \<open>pythonPath\<close> cannot be duplicated, an append to the search path
  list reports an exception, or the interpreter does not start with the configuration
  built so far (an exception status, or not initialised afterwards); and then the
  initialised flag is still false. The loop over \<open>pythonPath\<close> appends, in order, the
  decodable ones among its non-empty colon-separated entries: an entry that does not
  decode is dropped and changes nothing for the others.
\<close>

theorem initialize_failure_causes:
  assumes "\<not> s_pythonInitialized s"
  shows "((\<not> fst (novin_python_initialize api pythonHome pythonPath s)) =
            (home_decode_fails api pythonHome \<or> home_set_fails api pythonHome \<or>
             path_copy_fails api pythonPath \<or> path_append_fails api pythonPath \<or>
             startup_fails api (planned_config api pythonHome pythonPath)))
       \<and> (\<not> fst (novin_python_initialize api pythonHome pythonPath s) \<longrightarrow>
            \<not> s_pythonInitialized (fst (snd (novin_python_initialize api pythonHome pythonPath s))))
       \<and> fst (append_search_paths api path paths) =
            append_all api paths (List.map_filter (Py_DecodeLocale api) (path_entries path))"
  using initialize_result [OF assms, of api pythonHome pythonPath]
    append_search_paths_refines [of api path paths]
  by (simp add: decoded_entries_def del: append_search_paths.simps)

theorem initialize_failure_causes_witness:
  "\<not> s_pythonInitialized initial_state
   \<and> fst (novin_python_initialize good_api (Some ''/h'') (Some '':/a::bad:/b:'') initial_state)
   \<and> Py_DecodeLocale good_api ''bad'' = None
   \<and> path_entries '':/a::bad:/b:'' = [''/a'', ''bad'', ''/b'']
   \<and> fst (append_search_paths good_api '':/a::bad:/b:'' []) =
       Some [map of_char ''/a'', map of_char ''/b'']"
  using initialize_failure_causes [of initial_state good_api "Some ''/h''"
      "Some '':/a::bad:/b:''" "'':/a::bad:/b:''" "[]"]
  by (simp add: initial_state_def good_api_def path_entries_def decoded_entries_def
      List.map_filter_simps home_decode_fails_def home_set_fails_def path_copy_fails_def
      path_append_fails_def startup_fails_def planned_config_def isolated_config_def
      del: append_search_paths.simps)

text \<open>
  The claim as stated lists three causes and says "exactly when". With a home path that
  decodes and a configuration that refuses it, the call returns false although the
  decoding succeeded, no append was made and the interpreter was never started.
\<close>

theorem initialize_failure_causes_counterexample:
  "\<not> s_pythonInitialized initial_state
   \<and> \<not> fst (novin_python_initialize home_rejected_api (Some ''/h'') None initial_state)
   \<and> Py_DecodeLocale home_rejected_api ''/h'' \<noteq> None
   \<and> \<not> home_decode_fails home_rejected_api (Some ''/h'')
   \<and> \<not> path_append_fails home_rejected_api None
   \<and> \<not> startup_fails home_rejected_api (planned_config home_rejected_api (Some ''/h'') None)
   \<and> snd (snd (novin_python_initialize home_rejected_api (Some ''/h'') None initial_state)) =
       [Ev_Config_InitIsolated, Ev_DecodeLocale ''/h'',
        Ev_Config_SetString (map of_char ''/h''), Ev_Config_Clear]"
  by (simp add: eval_defs home_decode_fails_def path_append_fails_def startup_fails_def
      planned_config_def isolated_config_def)

section \<open>Freeing NULL\<close>

text \<open>
  C8. \<open>novin_python_free_string(NULL)\<close> makes no call (in particular no \<open>free\<close>) and
  changes no static variable.
\<close>

theorem free_string_null:
  "novin_python_free_string None = [] \<and> step (Call_free_string None) s = s"
  by (simp add: novin_python_free_string_def)


section \<open>The instance lives inside the initialised state\<close>

text \<open>
  C9. After any sequence of calls of the four operations from the initial state, in any
  environments, a non-NULL instance handle implies that the initialised flag is true.
\<close>

theorem instance_implies_initialized:
  "s_novinBridgeInstance (run calls initial_state) \<noteq> None \<Longrightarrow>
   s_pythonInitialized (run calls initial_state)"
  using run_invariant [of initial_state calls] by (simp add: initial_state_def)

theorem instance_implies_initialized_witness:
  "s_novinBridgeInstance
     (run [Call_initialize good_api None None,
           Call_process_request good_api ''{}'' None None True] initial_state) \<noteq> None
   \<and> s_pythonInitialized
     (run [Call_initialize good_api None None,
           Call_process_request good_api ''{}'' None None True] initial_state)"
  using instance_implies_initialized [of "[Call_initialize good_api None None,
           Call_process_request good_api ''{}'' None None True]"]
  by (simp add: eval_defs)


section \<open>Empty strings are treated as NULL\<close>

text \<open>
  C10. For \<open>novin_python_initialize\<close> an empty \<open>pythonHome\<close> is the same as NULL, an
  empty \<open>pythonPath\<close> is the same as NULL, and so \<open>initialize("", "")\<close> returns the
  same value, leaves the same static variables and makes the same calls as
  \<open>initialize(NULL, NULL)\<close>.
\<close>

theorem initialize_empty_as_null:
  "novin_python_initialize api (Some []) pythonPath s = novin_python_initialize api None pythonPath s
   \<and> novin_python_initialize api pythonHome (Some []) s = novin_python_initialize api pythonHome None s
   \<and> novin_python_initialize api (Some []) (Some []) s = novin_python_initialize api None None s"
  by (simp add: novin_python_initialize_def set_python_home_empty add_search_paths_empty
      cong: sum.case_cong prod.case_cong)

section \<open>The instance is constructed once\<close>




section \<open>Construction and its failure\<close>




text \<open>
  A blob that \<open>loads\<close> refuses: the exception it leaves pending makes the constructor
  call fail, and the request ends as a failed construction.
\<close>

lemma unparsable_blob_fails:
  "parsed_config unparsable_api (Some ''{x}'') = None
   \<and> ret (novin_python_process_request unparsable_api ''{}'' None (Some ''{x}'') True started_state)
       = None
   \<and> err_written
       (novin_python_process_request unparsable_api ''{}'' None (Some ''{x}'') True started_state)
       = Some (Some ''Failed to initialize NovinAIBridge'')
   \<and> state (novin_python_process_request unparsable_api ''{}'' None (Some ''{x}'') True started_state)
       = started_state"
  by (simp add: eval_defs parsed_config_def)

end
